theory Spec2Isabelle
  imports Main
begin

section \<open>JavaScript values and the builtins the client relies on\<close>

text \<open>
  The client of \<^verbatim>\<open>common/apiClient.js\<close> passes JSON-like values through to the remote
  service. They are modelled structurally. Numbers are the integers (fractions, NaN and
  the rounding of doubles beyond \<open>2^53\<close> are outside the model); an object is an
  association list in insertion order with distinct keys (the special enumeration order of
  array-index keys is not modelled).
\<close>

datatype jsval =
    JUndefined
  | JNull
  | JBool bool
  | JNum int
  | JStr string
  | JArr "jsval list"
  | JObj "(string \<times> jsval) list"

text \<open>ToBoolean.\<close>

fun truthy :: "jsval \<Rightarrow> bool" where
  "truthy JUndefined = False"
| "truthy JNull = False"
| "truthy (JBool b) = b"
| "truthy (JNum n) = (n \<noteq> 0)"
| "truthy (JStr s) = (s \<noteq> [])"
| "truthy (JArr xs) = True"
| "truthy (JObj kvs) = True"

text \<open>Decimal rendering of numbers, as a template literal produces it.\<close>

fun string_of_nat :: "nat \<Rightarrow> string" where
  "string_of_nat n =
     (if n < 10 then [char_of (48 + n)]
      else string_of_nat (n div 10) @ [char_of (48 + n mod 10)])"

declare string_of_nat.simps [simp del]

definition string_of_int :: "int \<Rightarrow> string" where
  "string_of_int i = (if i < 0 then CHR ''-'' # string_of_nat (nat (- i)) else string_of_nat (nat i))"

text \<open>ToString, as applied by a template literal.\<close>

fun intersperse :: "string \<Rightarrow> string list \<Rightarrow> string" where
  "intersperse sep [] = []"
| "intersperse sep [x] = x"
| "intersperse sep (x # y # ys) = x @ sep @ intersperse sep (y # ys)"

fun js_to_string :: "jsval \<Rightarrow> string" where
  "js_to_string JUndefined = ''undefined''"
| "js_to_string JNull = ''null''"
| "js_to_string (JBool b) = (if b then ''true'' else ''false'')"
| "js_to_string (JNum n) = string_of_int n"
| "js_to_string (JStr s) = s"
| "js_to_string (JArr xs) =
     intersperse '',''
       (map (\<lambda>x. if x = JUndefined \<or> x = JNull then [] else js_to_string x) xs)"
| "js_to_string (JObj kvs) = ''[object Object]''"

text \<open>
  \<^verbatim>\<open>JSON.stringify(v)\<close>: \<open>None\<close> is \<^verbatim>\<open>undefined\<close>. Properties whose value is undefined
  are left out of an object, and undefined becomes \<^verbatim>\<open>null\<close> inside an array.
\<close>

definition hex_digit :: "nat \<Rightarrow> char" where
  "hex_digit d = (if d < 10 then char_of (48 + d) else char_of (87 + d))"

definition json_escape_char :: "char \<Rightarrow> string" where
  "json_escape_char c =
     (let n = (of_char c :: nat)
      in if n = 34 then [CHR 0x5C, CHR 0x22]
         else if n = 92 then [CHR 0x5C, CHR 0x5C]
         else if n = 8 then [CHR 0x5C, CHR ''b'']
         else if n = 9 then [CHR 0x5C, CHR ''t'']
         else if n = 10 then [CHR 0x5C, CHR ''n'']
         else if n = 12 then [CHR 0x5C, CHR ''f'']
         else if n = 13 then [CHR 0x5C, CHR ''r'']
         else if n < 32 then CHR 0x5C # ''u00'' @ [hex_digit (n div 16), hex_digit (n mod 16)]
         else [c])"

definition json_quote :: "string \<Rightarrow> string" where
  "json_quote s = CHR 0x22 # concat (map json_escape_char s) @ [CHR 0x22]"

fun json_stringify :: "jsval \<Rightarrow> string option" where
  "json_stringify JUndefined = None"
| "json_stringify JNull = Some ''null''"
| "json_stringify (JBool b) = Some (if b then ''true'' else ''false'')"
| "json_stringify (JNum n) = Some (string_of_int n)"
| "json_stringify (JStr s) = Some (json_quote s)"
| "json_stringify (JArr xs) =
     Some (''['' @
           intersperse '',''
             (map (\<lambda>x. case json_stringify x of None \<Rightarrow> ''null'' | Some t \<Rightarrow> t) xs) @
           '']'')"
| "json_stringify (JObj kvs) =
     Some (''{'' @
           intersperse '',''
             (concat (map (\<lambda>kv. case json_stringify (snd kv) of
                                   None \<Rightarrow> []
                                 | Some t \<Rightarrow> [json_quote (fst kv) @ '':'' @ t]) kvs)) @
           ''}'')"

text \<open>Property read \<^verbatim>\<open>v?.k\<close> for a non-index key \<open>k\<close>.\<close>

fun get_prop :: "jsval \<Rightarrow> string \<Rightarrow> jsval" where
  "get_prop (JObj kvs) k = (case map_of kvs k of Some v \<Rightarrow> v | None \<Rightarrow> JUndefined)"
| "get_prop v k = JUndefined"

text \<open>Property write \<^verbatim>\<open>o[k] = v\<close>: an existing key keeps its place.\<close>

fun obj_set :: "(string \<times> jsval) list \<Rightarrow> string \<Rightarrow> jsval \<Rightarrow> (string \<times> jsval) list" where
  "obj_set [] k v = [(k, v)]"
| "obj_set ((k', v') # kvs) k v =
     (if k' = k then (k, v) # kvs else (k', v') # obj_set kvs k v)"

text \<open>The own enumerable properties that \<^verbatim>\<open>{...v}\<close> copies.\<close>

fun own_props :: "jsval \<Rightarrow> (string \<times> jsval) list" where
  "own_props (JObj kvs) = kvs"
| "own_props (JArr xs) = map (\<lambda>i. (string_of_nat i, xs ! i)) [0..<length xs]"
| "own_props (JStr s) = map (\<lambda>i. (string_of_nat i, JStr [s ! i])) [0..<length s]"
| "own_props v = []"

definition spread :: "(string \<times> jsval) list \<Rightarrow> jsval \<Rightarrow> (string \<times> jsval) list" where
  "spread kvs v = foldl (\<lambda>acc (k, x). obj_set acc k x) kvs (own_props v)"

text \<open>A parameter default \<^verbatim>\<open>p = d\<close> applies exactly when the argument is undefined.\<close>

definition default_param :: "jsval \<Rightarrow> jsval \<Rightarrow> jsval" where
  "default_param v d = (if v = JUndefined then d else v)"

text \<open>
  \<^verbatim>\<open>a || d\<close> on an optional string and on an optional number: the left operand is
  taken when it is truthy, \<open>None\<close> standing for \<^verbatim>\<open>undefined\<close> (and, for numbers, NaN).
\<close>

fun str_or :: "string option \<Rightarrow> string \<Rightarrow> string" where
  "str_or None d = d"
| "str_or (Some s) d = (if s = [] then d else s)"

fun num_or :: "int option \<Rightarrow> int \<Rightarrow> int" where
  "num_or None d = d"
| "num_or (Some n) d = (if n = 0 then d else n)"

text \<open>
  \<^verbatim>\<open>parseInt(s)\<close> without a radix: leading white space is skipped, a sign is read, a
  \<^verbatim>\<open>0x\<close> prefix selects radix 16, and the longest prefix of digits is converted;
  \<open>None\<close> is NaN. \<^verbatim>\<open>parseInt(undefined)\<close> is NaN.
\<close>

definition is_space :: "char \<Rightarrow> bool" where
  "is_space c = ((of_char c :: nat) \<in> {9, 10, 11, 12, 13, 32})"

definition digit_value :: "char \<Rightarrow> nat" where
  "digit_value c =
     (let n = (of_char c :: nat)
      in if 48 \<le> n \<and> n \<le> 57 then n - 48
         else if 97 \<le> n \<and> n \<le> 122 then n - 87
         else if 65 \<le> n \<and> n \<le> 90 then n - 55
         else 36)"

definition parse_digits :: "nat \<Rightarrow> string \<Rightarrow> int option" where
  "parse_digits radix s =
     (let ds = takeWhile (\<lambda>c. digit_value c < radix) s
      in if ds = [] then None
         else Some (foldl (\<lambda>a c. a * int radix + int (digit_value c)) 0 ds))"

definition parse_unsigned :: "string \<Rightarrow> int option" where
  "parse_unsigned s =
     (if take 2 s = ''0x'' \<or> take 2 s = ''0X'' then parse_digits 16 (drop 2 s)
      else parse_digits 10 s)"

definition parseInt :: "string option \<Rightarrow> int option" where
  "parseInt v =
     (case v of
        None \<Rightarrow> None
      | Some s \<Rightarrow>
          (case dropWhile is_space s of
             c # r \<Rightarrow>
               (if c = CHR ''-'' then map_option uminus (parse_unsigned r)
                else if c = CHR ''+'' then parse_unsigned r
                else parse_unsigned (c # r))
           | [] \<Rightarrow> None))"

section \<open>Configuration and construction\<close>

text \<open>The \<^verbatim>\<open>options\<close> argument of the constructor; \<open>None\<close> is an omitted field.\<close>

record client_options =
  opt_apiUrl :: "string option"
  opt_apiKey :: "string option"
  opt_timeout :: "int option"
  opt_retries :: "int option"
  opt_enableLogging :: "bool option"

definition no_options :: client_options where
  "no_options = \<lparr>opt_apiUrl = None, opt_apiKey = None, opt_timeout = None,
                  opt_retries = None, opt_enableLogging = None\<rparr>"

text \<open>The variables of \<^verbatim>\<open>process.env\<close> the constructor reads.\<close>

record process_env =
  NETPAD_API_URL :: "string option"
  NETPAD_API_KEY :: "string option"
  NETPAD_TIMEOUT :: "string option"
  NETPAD_RETRIES :: "string option"

text \<open>\<^verbatim>\<open>this.config\<close>.\<close>

record client_config =
  baseURL :: string
  apiKey :: string
  timeout :: int
  retries :: int
  enableLogging :: bool

text \<open>The argument of \<^verbatim>\<open>updateConfig\<close>: the keys of \<^verbatim>\<open>this.config\<close> it carries.\<close>

record config_update =
  upd_baseURL :: "string option"
  upd_apiKey :: "string option"
  upd_timeout :: "int option"
  upd_retries :: "int option"
  upd_enableLogging :: "bool option"

text \<open>
  An axios instance as \<^verbatim>\<open>axios.create\<close> receives it: the defaults merged into every
  request sent through it.
\<close>

record axios_instance =
  default_baseURL :: string
  default_timeout :: int
  default_headers :: "(string \<times> string) list"

text \<open>The request configuration of one attempt, with the \<^verbatim>\<open>__retryCount\<close> the
  response interceptor stores on it.\<close>

record request_config =
  req_method :: string
  url :: string
  req_data :: jsval
  req_baseURL :: string
  req_timeout :: int
  req_headers :: "(string \<times> string) list"
  retryCount :: "nat option"

record response =
  status :: nat
  statusText :: string
  data :: jsval

text \<open>The error a request is rejected with: \<^verbatim>\<open>error.message\<close>, \<^verbatim>\<open>error.config\<close>
  (\<open>None\<close> when the error carries none), whether \<^verbatim>\<open>error.request\<close> is set, and
  \<^verbatim>\<open>error.response\<close>.\<close>

record axios_error =
  ae_message :: string
  ae_config :: "request_config option"
  ae_request :: bool
  ae_response :: "response option"

text \<open>An \<^verbatim>\<open>Error\<close> thrown to a caller, with the fields \<^verbatim>\<open>enhanceError\<close> may add.\<close>

record js_error =
  message :: string
  err_status :: "nat option"
  err_data :: "jsval option"
  originalError :: "axios_error option"

definition plain_error :: "string \<Rightarrow> js_error" where
  "plain_error m = \<lparr>message = m, err_status = None, err_data = None, originalError = None\<rparr>"

text \<open>
  Everything the client does to the outside world is recorded, in order, in a trace:
  axios instances created, requests handed to the transport, timers waited for, and console
  output. \<open>Slept d\<close> is a timer that fired after \<open>d\<close> milliseconds. \<open>LogMessage m\<close> is the line \<^verbatim>\<open>[NetPad API] <timestamp>: m\<close> of \<^verbatim>\<open>log\<close> (the
  clock is not modelled); \<open>ConsoleLogData l v\<close> is \<^verbatim>\<open>console.log(l, JSON.stringify(v, null, 2))\<close>.
\<close>

datatype event =
    Created axios_instance
  | Dispatched request_config
  | Slept int
  | ConsoleLog string
  | ConsoleLogData string jsval
  | ConsoleWarn string string
  | LogMessage string

type_synonym trace = "event list"

text \<open>A client object: \<^verbatim>\<open>this.config\<close> and \<^verbatim>\<open>this.client\<close> (\<open>None\<close> is \<^verbatim>\<open>null\<close>).\<close>

record netpad_client =
  config :: client_config
  client :: "axios_instance option"

text \<open>The object literal of lines 6--12 of the constructor.\<close>

definition resolve_config :: "client_options \<Rightarrow> process_env \<Rightarrow> client_config" where
  "resolve_config options env =
     \<lparr>baseURL = str_or (opt_apiUrl options)
                  (str_or (NETPAD_API_URL env) ''https://netpad.io/api/mcp''),
      apiKey = str_or (opt_apiKey options) (str_or (NETPAD_API_KEY env) ''''),
      timeout = num_or (opt_timeout options) (num_or (parseInt (NETPAD_TIMEOUT env)) 30000),
      retries = num_or (opt_retries options) (num_or (parseInt (NETPAD_RETRIES env)) 3),
      enableLogging = (opt_enableLogging options \<noteq> Some False)\<rparr>"

definition api_key_required :: string where
  "api_key_required =
     ''NetPad API key is required. Set NETPAD_API_KEY environment variable or pass apiKey option.''"

definition axios_create :: "client_config \<Rightarrow> axios_instance" where
  "axios_create c =
     \<lparr>default_baseURL = baseURL c,
      default_timeout = timeout c,
      default_headers =
        [(''Content-Type'', ''application/json''),
         (''X-API-Key'', apiKey c),
         (''User-Agent'', ''NetPad-Extension/1.0.0'')]\<rparr>"

text \<open>
  \<^verbatim>\<open>initialize()\<close>. It either throws before touching anything, or creates the axios
  instance, stores it in \<^verbatim>\<open>this.client\<close> and registers the interceptors on it (the
  interceptors are the function \<open>request\<close> below).
\<close>

definition initialize :: "netpad_client \<Rightarrow> trace \<Rightarrow> (js_error + netpad_client) \<times> trace" where
  "initialize this tr =
     (if apiKey (config this) = [] then (Inl (plain_error api_key_required), tr)
      else
        let inst = axios_create (config this)
        in (Inr (this\<lparr>client := Some inst\<rparr>), tr @ [Created inst]))"

text \<open>\<^verbatim>\<open>new NetPadApiClient(options)\<close>, with \<^verbatim>\<open>options = {}\<close> when the argument is omitted.\<close>

definition NetPadApiClient ::
  "client_options option \<Rightarrow> process_env \<Rightarrow> trace \<Rightarrow> (js_error + netpad_client) \<times> trace" where
  "NetPadApiClient options env tr =
     (let opts = (case options of None \<Rightarrow> no_options | Some o' \<Rightarrow> o');
          this = \<lparr>config = resolve_config opts env, client = None\<rparr>
      in initialize this tr)"

definition createNetPadClient ::
  "client_options option \<Rightarrow> process_env \<Rightarrow> trace \<Rightarrow> (js_error + netpad_client) \<times> trace" where
  "createNetPadClient options env tr = NetPadApiClient options env tr"

section \<open>The transport\<close>

text \<open>
  What happens to one request handed to the transport: an HTTP response (of any status)
  arrives; no response arrives (connection failure or timeout, with the message axios
  reports); axios fails while setting the request up, before anything is sent; or an
  exception that is not an axios error is thrown on the way (the TypeError of an invalid
  URL, for one), which carries no request configuration. The outcome may depend on
  everything that happened before.
\<close>

datatype reply =
    Response response
  | NoResponse string
  | SetupFailure string
  | Thrown string

type_synonym network = "trace \<Rightarrow> request_config \<Rightarrow> reply"

text \<open>
  The axios library is not part of the repository. Its documented behaviour is taken as
  follows: the defaults of the instance are merged into the request configuration; a
  response settles the request successfully exactly when its status is in \<open>[200, 300)\<close>
  (the default \<^verbatim>\<open>validateStatus\<close>); a rejection by axios itself is an error that
  carries the request configuration, \<^verbatim>\<open>error.request\<close> when a request was made, and
  \<^verbatim>\<open>error.response\<close> when a response arrived; any other exception is passed on as it
  is. Before the request is handed to the transport, \<^verbatim>\<open>config.data\<close> is replaced by its
  JSON text (the default \<^verbatim>\<open>transformRequest\<close> under the JSON content type the client
  sets): undefined stays undefined, and a string that already is JSON text stays as it is.
  The client places only an object or nothing in this position, so the strings met here
  are the texts made by an earlier pass.
\<close>

definition transformRequest :: "jsval \<Rightarrow> jsval" where
  "transformRequest d =
     (case d of
        JStr s \<Rightarrow> JStr s
      | _ \<Rightarrow> (case json_stringify d of None \<Rightarrow> JUndefined | Some t \<Rightarrow> JStr t))"

definition mk_request :: "axios_instance \<Rightarrow> string \<Rightarrow> string \<Rightarrow> jsval \<Rightarrow> request_config" where
  "mk_request inst m u d =
     \<lparr>req_method = m, url = u, req_data = d,
      req_baseURL = default_baseURL inst,
      req_timeout = default_timeout inst,
      req_headers = default_headers inst,
      retryCount = None\<rparr>"

definition validateStatus :: "nat \<Rightarrow> bool" where
  "validateStatus s = (200 \<le> s \<and> s < 300)"

definition settle :: "request_config \<Rightarrow> reply \<Rightarrow> axios_error + response" where
  "settle cfg r =
     (case r of
        Response resp \<Rightarrow>
          if validateStatus (status resp) then Inr resp
          else Inl \<lparr>ae_message = ''Request failed with status code '' @ string_of_nat (status resp),
                    ae_config = Some cfg, ae_request = True, ae_response = Some resp\<rparr>
      | NoResponse m \<Rightarrow>
          Inl \<lparr>ae_message = m, ae_config = Some cfg, ae_request = True, ae_response = None\<rparr>
      | SetupFailure m \<Rightarrow>
          Inl \<lparr>ae_message = m, ae_config = Some cfg, ae_request = False, ae_response = None\<rparr>
      | Thrown m \<Rightarrow>
          Inl \<lparr>ae_message = m, ae_config = None, ae_request = False, ae_response = None\<rparr>)"

section \<open>Retry policy and error normalisation\<close>

definition to_upper_char :: "char \<Rightarrow> char" where
  "to_upper_char c =
     (let n = (of_char c :: nat) in if 97 \<le> n \<and> n \<le> 122 then char_of (n - 32) else c)"

definition toUpperCase :: "string \<Rightarrow> string" where
  "toUpperCase s = map to_upper_char s"

text \<open>\<^verbatim>\<open>log(message)\<close>.\<close>

definition log :: "client_config \<Rightarrow> string \<Rightarrow> trace \<Rightarrow> trace" where
  "log conf m tr = (if enableLogging conf then tr @ [LogMessage m] else tr)"

text \<open>\<^verbatim>\<open>shouldRetry(error)\<close>.\<close>

definition shouldRetry :: "axios_error \<Rightarrow> bool" where
  "shouldRetry error =
     (case ae_response error of
        None \<Rightarrow> True
      | Some resp \<Rightarrow> status resp \<ge> 500 \<or> status resp = 429)"

text \<open>\<^verbatim>\<open>enhanceError(error)\<close>.\<close>

definition enhanceError :: "axios_error \<Rightarrow> js_error" where
  "enhanceError error =
     (case ae_response error of
        Some resp \<Rightarrow>
          \<lparr>message = ''NetPad API Error ('' @ string_of_nat (status resp) @ ''): '' @
             (let m = get_prop (data resp) ''message''
              in if truthy m then js_to_string m else statusText resp),
           err_status = Some (status resp),
           err_data = Some (data resp),
           originalError = Some error\<rparr>
      | None \<Rightarrow>
          if ae_request error then
            \<lparr>message = ''NetPad API Error: No response received (network error)'',
             err_status = None, err_data = None, originalError = Some error\<rparr>
          else
            \<lparr>message = ''NetPad API Error: '' @ ae_message error,
             err_status = None, err_data = None, originalError = Some error\<rparr>)"

text \<open>\<^verbatim>\<open>Math.pow(2, config.__retryCount) * 1000\<close>, in milliseconds.\<close>

definition backoff_delay :: "nat \<Rightarrow> int" where
  "backoff_delay count = 2 ^ count * 1000"

text \<open>
  \<^verbatim>\<open>sleep(ms)\<close> is \<^verbatim>\<open>setTimeout(resolve, ms)\<close>. Node runs a timer whose delay is
  below 1 or above \<open>2^31 - 1\<close> milliseconds (\<^verbatim>\<open>TIMEOUT_MAX\<close>) with a delay of 1.
\<close>

definition TIMEOUT_MAX :: int where
  "TIMEOUT_MAX = 2147483647"

definition setTimeout_delay :: "int \<Rightarrow> int" where
  "setTimeout_delay ms = (if ms < 1 \<or> TIMEOUT_MAX < ms then 1 else ms)"

definition sleep :: "int \<Rightarrow> trace \<Rightarrow> trace" where
  "sleep ms tr = tr @ [Slept (setTimeout_delay ms)]"

text \<open>\<^verbatim>\<open>Cannot read properties of undefined (reading 'p')\<close>.\<close>

definition undefined_property_error :: "string \<Rightarrow> js_error" where
  "undefined_property_error p =
     plain_error (''Cannot read properties of undefined (reading '' @ [CHR 0x27] @ p @
                  [CHR 0x27] @ '')'')"

text \<open>The lines the request interceptor prints.\<close>

definition request_log :: "client_config \<Rightarrow> request_config \<Rightarrow> trace \<Rightarrow> trace" where
  "request_log conf cfg tr =
     (if enableLogging conf then
        tr @ [ConsoleLog (''[NetPad API] '' @ toUpperCase (req_method cfg) @ '' '' @ url cfg),
              ConsoleLogData ''[NetPad API] Request data:'' (req_data cfg)]
      else tr)"

text \<open>The line the response interceptor prints for a successful response.\<close>

definition response_log :: "client_config \<Rightarrow> response \<Rightarrow> trace \<Rightarrow> trace" where
  "response_log conf resp tr =
     (if enableLogging conf then
        tr @ [ConsoleLog (''[NetPad API] Response: '' @ string_of_nat (status resp) @ '' '' @
                          statusText resp)]
      else tr)"

text \<open>
  \<^verbatim>\<open>this.client.request(config)\<close> with the interceptors of \<^verbatim>\<open>setupInterceptors\<close>
  in place: the request interceptor logs the configuration it is given, the request is
  handed to the transport with its data serialised, and the response interceptor either
  passes the response on, or retries by calling \<^verbatim>\<open>this.client.request(config)\<close> again
  after the backoff sleep, or rejects with the enhanced error. On an error without
  \<^verbatim>\<open>config\<close> the read of \<^verbatim>\<open>config.__retryCount\<close> throws. \<^verbatim>\<open>this.config\<close> is read
  by the interceptors at each use; it is constant during one call here (no other code runs
  in between).
\<close>

function request ::
  "network \<Rightarrow> client_config \<Rightarrow> request_config \<Rightarrow> trace \<Rightarrow> (js_error + response) \<times> trace" where
  "request net conf cfg tr =
     (let sent = cfg\<lparr>req_data := transformRequest (req_data cfg)\<rparr>;
          tr1 = request_log conf cfg tr @ [Dispatched sent]
      in case settle sent (net tr1 sent) of
           Inr resp \<Rightarrow> (Inr resp, response_log conf resp tr1)
         | Inl error \<Rightarrow>
             (let tr2 = log conf (''Response error: '' @ ae_message error) tr1
              in case ae_config error of
                   None \<Rightarrow> (Inl (undefined_property_error ''__retryCount''), tr2)
                 | Some econfig \<Rightarrow>
                     (let count = (case retryCount econfig of None \<Rightarrow> 0 | Some c \<Rightarrow> c);
                          config0 = econfig\<lparr>retryCount := Some count\<rparr>;
                          error0 = error\<lparr>ae_config := Some config0\<rparr>
                      in if int count < retries conf \<and> shouldRetry error0 then
                           (let config' = config0\<lparr>retryCount := Some (count + 1)\<rparr>;
                                tr3 = log conf (''Retrying request ('' @ string_of_nat (count + 1) @
                                                ''/'' @ string_of_int (retries conf) @ '')'') tr2;
                                tr4 = sleep (backoff_delay (count + 1)) tr3
                            in request net conf config' tr4)
                         else (Inl (enhanceError error0), tr2))))"
  by pat_completeness auto
termination
  by (relation "measure (\<lambda>(net, conf, cfg, tr).
         nat (retries conf - int (case retryCount cfg of None \<Rightarrow> 0 | Some c \<Rightarrow> c)))")
     (auto simp: settle_def split: reply.splits if_splits option.splits)

declare request.simps [simp del]

section \<open>The operations of the client\<close>

text \<open>
  A method call on \<^verbatim>\<open>this.client\<close> while it is still \<^verbatim>\<open>null\<close> raises a TypeError
  (this cannot happen on a constructed client, whose constructor either set the field or
  threw).
\<close>

definition null_client_error :: "string \<Rightarrow> js_error" where
  "null_client_error m =
     plain_error (''Cannot read properties of null (reading '' @ [CHR 0x27] @ m @ [CHR 0x27] @ '')'')"

text \<open>\<^verbatim>\<open>this.client.post(url, body)\<close> and \<^verbatim>\<open>this.client.get(url)\<close>.\<close>

definition client_post ::
  "network \<Rightarrow> netpad_client \<Rightarrow> string \<Rightarrow> jsval \<Rightarrow> trace \<Rightarrow> (js_error + response) \<times> trace" where
  "client_post net this u body tr =
     (case client this of
        None \<Rightarrow> (Inl (null_client_error ''post''), tr)
      | Some inst \<Rightarrow> request net (config this) (mk_request inst ''post'' u body) tr)"

definition client_get ::
  "network \<Rightarrow> netpad_client \<Rightarrow> string \<Rightarrow> trace \<Rightarrow> (js_error + response) \<times> trace" where
  "client_get net this u tr =
     (case client this of
        None \<Rightarrow> (Inl (null_client_error ''get''), tr)
      | Some inst \<Rightarrow> request net (config this) (mk_request inst ''get'' u JUndefined) tr)"

definition executeCommand ::
  "network \<Rightarrow> netpad_client \<Rightarrow> jsval \<Rightarrow> jsval \<Rightarrow> trace \<Rightarrow> (js_error + jsval) \<times> trace" where
  "executeCommand net this type input tr =
     (case client_post net this ''/command'' (JObj [(''type'', type), (''input'', input)]) tr of
        (Inr resp, tr') \<Rightarrow> (Inr (data resp), tr')
      | (Inl error, tr') \<Rightarrow>
          (Inl error, log (config this) (''Command execution failed: '' @ message error) tr'))"

definition getTools :: "network \<Rightarrow> netpad_client \<Rightarrow> trace \<Rightarrow> (js_error + jsval) \<times> trace" where
  "getTools net this tr =
     (case client_get net this ''/tools'' tr of
        (Inr resp, tr') \<Rightarrow> (Inr (data resp), tr')
      | (Inl error, tr') \<Rightarrow>
          (Inl error, log (config this) (''Failed to fetch tools: '' @ message error) tr'))"

definition executeTool ::
  "network \<Rightarrow> netpad_client \<Rightarrow> jsval \<Rightarrow> jsval \<Rightarrow> trace \<Rightarrow> (js_error + jsval) \<times> trace" where
  "executeTool net this toolName parameters tr =
     (case client_post net this ''/tools/execute''
             (JObj [(''tool'', toolName),
                    (''parameters'', default_param parameters (JObj []))]) tr of
        (Inr resp, tr') \<Rightarrow> (Inr (data resp), tr')
      | (Inl error, tr') \<Rightarrow>
          (Inl error, log (config this) (''Tool execution failed: '' @ message error) tr'))"

definition analyzeCode ::
  "network \<Rightarrow> netpad_client \<Rightarrow> jsval \<Rightarrow> jsval \<Rightarrow> jsval \<Rightarrow> jsval \<Rightarrow> trace
     \<Rightarrow> (js_error + jsval) \<times> trace" where
  "analyzeCode net this code language analysisType options tr =
     executeCommand net this (JStr ''code_analysis'')
       (JObj (spread [(''code'', code), (''language'', language),
                      (''analysisType'', default_param analysisType (JStr ''summary''))]
                     (default_param options (JObj [])))) tr"

definition extractDataLineage ::
  "network \<Rightarrow> netpad_client \<Rightarrow> jsval \<Rightarrow> jsval \<Rightarrow> jsval \<Rightarrow> trace \<Rightarrow> (js_error + jsval) \<times> trace" where
  "extractDataLineage net this code language fileName tr =
     executeCommand net this (JStr ''data_lineage_extraction'')
       (JObj [(''code'', code), (''language'', language),
              (''fileName'', default_param fileName JNull)]) tr"

definition sqlMetadataLookup ::
  "network \<Rightarrow> netpad_client \<Rightarrow> jsval \<Rightarrow> jsval \<Rightarrow> trace \<Rightarrow> (js_error + jsval) \<times> trace" where
  "sqlMetadataLookup net this sql options tr =
     executeCommand net this (JStr ''sql_metadata_lookup'')
       (JObj (spread [(''sql'', sql)] (default_param options (JObj [])))) tr"

definition runWorkflow ::
  "network \<Rightarrow> netpad_client \<Rightarrow> jsval \<Rightarrow> jsval \<Rightarrow> trace \<Rightarrow> (js_error + jsval) \<times> trace" where
  "runWorkflow net this workflowName input tr =
     executeCommand net this (JStr ''custom_workflow'')
       (JObj (spread [(''workflowName'', workflowName)] input)) tr"

definition healthCheck :: "network \<Rightarrow> netpad_client \<Rightarrow> trace \<Rightarrow> (js_error + jsval) \<times> trace" where
  "healthCheck net this tr =
     (case client_get net this ''/health'' tr of
        (Inr resp, tr') \<Rightarrow> (Inr (data resp), tr')
      | (Inl error, tr') \<Rightarrow>
          (Inl error, log (config this) (''Health check failed: '' @ message error) tr'))"

text \<open>The object \<^verbatim>\<open>testConnection\<close> resolves to.\<close>

record connection_result =
  success :: bool
  result_message :: string
  result_error :: "js_error option"

definition testConnection ::
  "network \<Rightarrow> netpad_client \<Rightarrow> trace \<Rightarrow> (js_error + connection_result) \<times> trace" where
  "testConnection net this tr =
     (case healthCheck net this tr of
        (Inr v, tr') \<Rightarrow>
          (Inr \<lparr>success = True,
                result_message = ''Connected to NetPad API successfully'',
                result_error = None\<rparr>,
           log (config this) ''Connection test successful'' tr')
      | (Inl error, tr') \<Rightarrow>
          (Inr \<lparr>success = False,
                result_message = ''Connection failed: '' @ message error,
                result_error = Some error\<rparr>,
           log (config this) (''Connection test failed: '' @ message error) tr'))"

text \<open>
  \<^verbatim>\<open>updateConfig(newConfig)\<close>. The client object is mutated in place, so the model
  returns it together with the outcome: when \<^verbatim>\<open>initialize\<close> throws, the assignment to
  \<^verbatim>\<open>this.config\<close> of the line before has already happened.
\<close>

definition merge_config :: "client_config \<Rightarrow> config_update \<Rightarrow> client_config" where
  "merge_config c u =
     \<lparr>baseURL = (case upd_baseURL u of None \<Rightarrow> baseURL c | Some v \<Rightarrow> v),
      apiKey = (case upd_apiKey u of None \<Rightarrow> apiKey c | Some v \<Rightarrow> v),
      timeout = (case upd_timeout u of None \<Rightarrow> timeout c | Some v \<Rightarrow> v),
      retries = (case upd_retries u of None \<Rightarrow> retries c | Some v \<Rightarrow> v),
      enableLogging = (case upd_enableLogging u of None \<Rightarrow> enableLogging c | Some v \<Rightarrow> v)\<rparr>"

definition updateConfig ::
  "config_update \<Rightarrow> netpad_client \<Rightarrow> trace \<Rightarrow> (js_error + unit) \<times> netpad_client \<times> trace" where
  "updateConfig newConfig this tr =
     (let this1 = this\<lparr>config := merge_config (config this) newConfig\<rparr>
      in case initialize this1 tr of
           (Inl error, tr') \<Rightarrow> (Inl error, this1, tr')
         | (Inr this2, tr') \<Rightarrow> (Inr (), this2, tr'))"

section \<open>The default client of the module\<close>







section \<open>Observing a call\<close>

text \<open>
  One call of a public remote operation of the client, so that a statement about
  ``every operation'' can quantify over them.
\<close>

datatype operation =
    ExecuteCommand jsval jsval
  | GetTools
  | ExecuteTool jsval jsval
  | AnalyzeCode jsval jsval jsval jsval
  | ExtractDataLineage jsval jsval jsval
  | SqlMetadataLookup jsval jsval
  | RunWorkflow jsval jsval
  | HealthCheck

fun perform :: "network \<Rightarrow> netpad_client \<Rightarrow> operation \<Rightarrow> trace \<Rightarrow> (js_error + jsval) \<times> trace" where
  "perform net this (ExecuteCommand type input) tr = executeCommand net this type input tr"
| "perform net this GetTools tr = getTools net this tr"
| "perform net this (ExecuteTool toolName parameters) tr =
     executeTool net this toolName parameters tr"
| "perform net this (AnalyzeCode code language analysisType options) tr =
     analyzeCode net this code language analysisType options tr"
| "perform net this (ExtractDataLineage code language fileName) tr =
     extractDataLineage net this code language fileName tr"
| "perform net this (SqlMetadataLookup sql options) tr = sqlMetadataLookup net this sql options tr"
| "perform net this (RunWorkflow workflowName input) tr = runWorkflow net this workflowName input tr"
| "perform net this HealthCheck tr = healthCheck net this tr"

text \<open>The requests handed to the transport, and the backoff sleeps, in a stretch of trace.\<close>

fun attempts :: "trace \<Rightarrow> request_config list" where
  "attempts [] = []"
| "attempts (Dispatched c # es) = c # attempts es"
| "attempts (e # es) = attempts es"

fun sleeps :: "trace \<Rightarrow> int list" where
  "sleeps [] = []"
| "sleeps (Slept d # es) = d # sleeps es"
| "sleeps (e # es) = sleeps es"

text \<open>The transport events only (requests and sleeps), in order.\<close>

fun on_wire :: "event \<Rightarrow> bool" where
  "on_wire (Dispatched c) = True"
| "on_wire (Slept d) = True"
| "on_wire e = False"

definition wire :: "trace \<Rightarrow> trace" where
  "wire tr = filter on_wire tr"

text \<open>The time slept before the \<open>n\<close>-th request (counting from 1) of a stretch of trace.\<close>

fun waited_before :: "nat \<Rightarrow> trace \<Rightarrow> int" where
  "waited_before n [] = 0"
| "waited_before n (Slept d # es) = d + waited_before n es"
| "waited_before n (Dispatched c # es) = (if n \<le> 1 then 0 else waited_before (n - 1) es)"
| "waited_before n (e # es) = waited_before n es"

text \<open>The remotes the properties below are about.\<close>

definition always_status :: "network \<Rightarrow> nat \<Rightarrow> bool" where
  "always_status net s =
     (\<forall>h c. case net h c of Response resp \<Rightarrow> status resp = s | _ \<Rightarrow> False)"


section \<open>Auxiliary definitions for the proofs\<close>

text \<open>The retry counter of a request configuration, read as the interceptor reads it
  (\<^verbatim>\<open>!config.__retryCount\<close> holds for \<^verbatim>\<open>undefined\<close> and for 0).\<close>

definition count_of :: "request_config \<Rightarrow> nat" where
  "count_of cfg = (case retryCount cfg of None \<Rightarrow> 0 | Some c \<Rightarrow> c)"

text \<open>The transport events of \<open>n\<close> further retries of a request whose counter is \<open>k\<close>:
  each retry is a sleep followed by the request with the counter advanced.\<close>

fun schedule :: "request_config \<Rightarrow> nat \<Rightarrow> nat \<Rightarrow> trace" where
  "schedule cfg k 0 = []"
| "schedule cfg k (Suc n) =
     Slept (setTimeout_delay (backoff_delay (Suc k))) #
     Dispatched (cfg\<lparr>retryCount := Some (Suc k)\<rparr>) #
     schedule cfg (Suc k) n"

text \<open>The request configuration as the transport receives it.\<close>

definition serialised :: "request_config \<Rightarrow> request_config" where
  "serialised cfg = cfg\<lparr>req_data := transformRequest (req_data cfg)\<rparr>"

text \<open>What each of \<^verbatim>\<open>executeCommand\<close>, \<^verbatim>\<open>getTools\<close>, \<^verbatim>\<open>executeTool\<close> and \<^verbatim>\<open>healthCheck\<close>
  does with the outcome of its request: return the body, or log and rethrow.\<close>

definition deliver ::
  "client_config \<Rightarrow> string \<Rightarrow> (js_error + response) \<times> trace \<Rightarrow> (js_error + jsval) \<times> trace" where
  "deliver conf label r =
     (case r of
        (Inr resp, tr') \<Rightarrow> (Inr (data resp), tr')
      | (Inl error, tr') \<Rightarrow> (Inl error, log conf (label @ message error) tr'))"

section \<open>Concrete clients and remotes\<close>

text \<open>A client as the constructor builds it from \<open>demo_options\<close> in an empty environment,
  remotes that always answer with one status or never answer, and the options, environments
  and reconfigurations at which the statements below are evaluated.\<close>

definition no_env :: process_env where
  "no_env = \<lparr>NETPAD_API_URL = None, NETPAD_API_KEY = None, NETPAD_TIMEOUT = None,
             NETPAD_RETRIES = None\<rparr>"

definition demo_options :: client_options where
  "demo_options = \<lparr>opt_apiUrl = None, opt_apiKey = Some ''key'', opt_timeout = None,
                    opt_retries = Some 2, opt_enableLogging = Some False\<rparr>"

definition demo_config :: client_config where
  "demo_config = \<lparr>baseURL = ''https://netpad.io/api/mcp'', apiKey = ''key'', timeout = 30000,
                   retries = 2, enableLogging = False\<rparr>"

definition demo_client :: netpad_client where
  "demo_client = \<lparr>config = demo_config, client = Some (axios_create demo_config)\<rparr>"

definition status_remote :: "nat \<Rightarrow> network" where
  "status_remote s = (\<lambda>h c. Response \<lparr>status = s, statusText = ''status'', data = JNull\<rparr>)"


definition clear_key :: config_update where
  "clear_key = \<lparr>upd_baseURL = None, upd_apiKey = Some '''', upd_timeout = None,
                 upd_retries = None, upd_enableLogging = None\<rparr>"

definition zero_retries :: client_options where
  "zero_retries = \<lparr>opt_apiUrl = None, opt_apiKey = Some ''key'', opt_timeout = None,
                    opt_retries = Some 0, opt_enableLogging = Some False\<rparr>"

definition keyless_options :: client_options where
  "keyless_options = \<lparr>opt_apiUrl = Some ''https://example.test/api'', opt_apiKey = Some '''',
                       opt_timeout = Some 5000, opt_retries = Some 1,
                       opt_enableLogging = Some True\<rparr>"

definition shorter_timeout :: config_update where
  "shorter_timeout = \<lparr>upd_baseURL = None, upd_apiKey = None, upd_timeout = Some 5000,
                       upd_retries = None, upd_enableLogging = None\<rparr>"




section \<open>Auxiliary lemmas\<close>

lemma settle_config: "settle cfg r = Inl e \<Longrightarrow> ae_config e = Some cfg \<or> ae_config e = None"
  by (auto simp: settle_def split: reply.splits if_splits)

lemma shouldRetry_config [simp]: "shouldRetry (e\<lparr>ae_config := c\<rparr>) = shouldRetry e"
  by (simp add: shouldRetry_def)

lemma transformRequest_idem [simp]: "transformRequest (transformRequest d) = transformRequest d"
  by (cases d) (simp_all add: transformRequest_def split: option.splits)

lemma serialised_idem [simp]: "serialised (serialised cfg) = serialised cfg"
  by (simp add: serialised_def)

lemma serialised_retryCount [simp]:
  "serialised (cfg\<lparr>retryCount := k\<rparr>) = (serialised cfg)\<lparr>retryCount := k\<rparr>"
  "retryCount (serialised cfg) = retryCount cfg"
  by (simp_all add: serialised_def)

lemma count_of_serialised [simp]: "count_of (serialised cfg) = count_of cfg"
  by (simp add: count_of_def)



lemma request_retry:
  assumes "settle (serialised cfg)
             (net (request_log conf cfg tr @ [Dispatched (serialised cfg)]) (serialised cfg)) = Inl e"
    and "ae_config e \<noteq> None"
    and "int (count_of cfg) < retries conf" and "shouldRetry e"
  shows "request net conf cfg tr =
           request net conf ((serialised cfg)\<lparr>retryCount := Some (Suc (count_of cfg))\<rparr>)
             (sleep (backoff_delay (Suc (count_of cfg)))
                (log conf (''Retrying request ('' @ string_of_nat (Suc (count_of cfg)) @ ''/'' @
                           string_of_int (retries conf) @ '')'')
                   (log conf (''Response error: '' @ ae_message e)
                      (request_log conf cfg tr @ [Dispatched (serialised cfg)]))))"
proof -
  have c: "ae_config e = Some (serialised cfg)"
    using settle_config[OF assms(1)] assms(2) by simp
  show ?thesis
    using assms(1,3,4) c by (subst request.simps) (simp add: Let_def count_of_def serialised_def)
qed

lemma request_give_up:
  assumes "settle (serialised cfg)
             (net (request_log conf cfg tr @ [Dispatched (serialised cfg)]) (serialised cfg)) = Inl e"
    and "ae_config e \<noteq> None"
    and "\<not> (int (count_of cfg) < retries conf \<and> shouldRetry e)"
  shows "request net conf cfg tr =
           (Inl (enhanceError
                   (e\<lparr>ae_config := Some ((serialised cfg)\<lparr>retryCount := Some (count_of cfg)\<rparr>)\<rparr>)),
            log conf (''Response error: '' @ ae_message e)
              (request_log conf cfg tr @ [Dispatched (serialised cfg)]))"
proof -
  have c: "ae_config e = Some (serialised cfg)"
    using settle_config[OF assms(1)] assms(2) by simp
  show ?thesis
    using assms(1,3) c by (subst request.simps) (auto simp add: Let_def count_of_def serialised_def)
qed

lemma wire_append: "wire (a @ b) = wire a @ wire b"
  by (simp add: wire_def)

lemma wire_log [simp]: "wire (log conf m tr) = wire tr"
  by (simp add: log_def wire_def)

lemma wire_request_log [simp]: "wire (request_log conf cfg tr) = wire tr"
  by (simp add: request_log_def wire_def)

lemma wire_response_log [simp]: "wire (response_log conf r tr) = wire tr"
  by (simp add: response_log_def wire_def)

lemma sleep_extends: "sleep ms tr = tr @ [Slept (setTimeout_delay ms)]"
  by (simp add: sleep_def)

lemma log_extends: "\<exists>new. log conf m tr = tr @ new \<and> wire new = []"
  by (simp add: log_def wire_def)

lemma request_log_extends: "\<exists>new. request_log conf cfg tr = tr @ new \<and> wire new = []"
  by (simp add: request_log_def wire_def)


lemma schedule_retryCount [simp]: "schedule (cfg\<lparr>retryCount := c\<rparr>) k n = schedule cfg k n"
  by (induction n arbitrary: k) simp_all


lemma request_exhausts:
  assumes retry: "\<And>h c. \<exists>e. settle c (net h c) = Inl e \<and> shouldRetry e \<and> ae_config e \<noteq> None"
  shows "\<exists>new h c e.
           request net conf cfg tr =
             (Inl (enhanceError (e\<lparr>ae_config := Some
                ((serialised cfg)\<lparr>retryCount :=
                    Some (count_of cfg + (nat (retries conf) - count_of cfg))\<rparr>)\<rparr>)),
              tr @ new) \<and>
           settle c (net h c) = Inl e \<and>
           wire new = Dispatched (serialised cfg) #
                      schedule (serialised cfg) (count_of cfg) (nat (retries conf) - count_of cfg)"
proof (induction "nat (retries conf) - count_of cfg" arbitrary: cfg tr rule: less_induct)
  case less
  let ?s = "serialised cfg"
  let ?tr1 = "request_log conf cfg tr @ [Dispatched ?s]"
  obtain n1 where n1: "request_log conf cfg tr = tr @ n1" "wire n1 = []"
    using request_log_extends by blast
  obtain e where e: "settle ?s (net ?tr1 ?s) = Inl e" "shouldRetry e" "ae_config e \<noteq> None"
    using retry by blast
  obtain n2 where n2: "log conf (''Response error: '' @ ae_message e) ?tr1 = ?tr1 @ n2" "wire n2 = []"
    using log_extends by blast
  show ?case
  proof (cases "int (count_of cfg) < retries conf")
    case False
    then have z: "nat (retries conf) - count_of cfg = 0" by linarith
    have "request net conf cfg tr =
            (Inl (enhanceError (e\<lparr>ae_config := Some (?s\<lparr>retryCount := Some (count_of cfg)\<rparr>)\<rparr>)),
             tr @ (n1 @ [Dispatched ?s] @ n2))"
      using request_give_up[where net=net and conf=conf and tr=tr, OF e(1) e(3)] False n1 n2 by simp
    moreover have "wire (n1 @ [Dispatched ?s] @ n2) = Dispatched ?s # schedule ?s (count_of cfg) 0"
      using n1 n2 by (simp add: wire_def)
    ultimately show ?thesis using e(1) z by (metis add_0_right)
  next
    case True
    let ?cfg' = "?s\<lparr>retryCount := Some (Suc (count_of cfg))\<rparr>"
    let ?m = "''Retrying request ('' @ string_of_nat (Suc (count_of cfg)) @ ''/'' @
                      string_of_int (retries conf) @ '')''"
    let ?d = "Slept (setTimeout_delay (backoff_delay (Suc (count_of cfg))))"
    let ?tr4 = "sleep (backoff_delay (Suc (count_of cfg)))
                  (log conf ?m (log conf (''Response error: '' @ ae_message e) ?tr1))"
    obtain n3 where n3: "log conf ?m (?tr1 @ n2) = (?tr1 @ n2) @ n3" "wire n3 = []"
      using log_extends by blast
    have t4: "?tr4 = tr @ (n1 @ [Dispatched ?s] @ n2 @ n3 @ [?d])"
      using n1 n2 n3 by (simp add: sleep_def)
    have c': "count_of ?cfg' = Suc (count_of cfg)" by (simp add: count_of_def)
    have s': "serialised ?cfg' = ?cfg'" by simp
    have lt: "nat (retries conf) - count_of ?cfg' < nat (retries conf) - count_of cfg"
      using True c' by linarith
    have s: "nat (retries conf) - count_of cfg = Suc (nat (retries conf) - Suc (count_of cfg))"
      using True by linarith
    have cnt: "Suc (count_of cfg) + (nat (retries conf) - Suc (count_of cfg))
               = count_of cfg + (nat (retries conf) - count_of cfg)"
      using s by simp
    from less[OF lt, of ?tr4]
    obtain new h c e' where IH:
      "request net conf ?cfg' ?tr4 =
         (Inl (enhanceError (e'\<lparr>ae_config := Some
            (?s\<lparr>retryCount := Some (count_of cfg + (nat (retries conf) - count_of cfg))\<rparr>)\<rparr>)),
          ?tr4 @ new)"
      "settle c (net h c) = Inl e'"
      "wire new = Dispatched ?cfg' # schedule ?s (Suc (count_of cfg)) (nat (retries conf) - Suc (count_of cfg))"
      unfolding s' c' cnt by auto
    have eq: "request net conf cfg tr = request net conf ?cfg' ?tr4"
      using request_retry[where net=net and conf=conf and tr=tr, OF e(1) e(3)] True e(2) by simp
    have "request net conf cfg tr =
            (Inl (enhanceError (e'\<lparr>ae_config := Some
                (?s\<lparr>retryCount := Some (count_of cfg + (nat (retries conf) - count_of cfg))\<rparr>)\<rparr>)),
             tr @ (n1 @ [Dispatched ?s] @ n2 @ n3 @ [?d] @ new))"
      using eq IH(1) t4 by simp
    moreover have "wire (n1 @ [Dispatched ?s] @ n2 @ n3 @ [?d] @ new)
        = Dispatched ?s # schedule ?s (count_of cfg) (nat (retries conf) - count_of cfg)"
      using n1 n2 n3 IH(3) unfolding s by (simp add: wire_def)
    ultimately show ?thesis using IH(2) by blast
  qed
qed

lemma request_rejected_once:
  assumes "settle (serialised cfg)
             (net (request_log conf cfg tr @ [Dispatched (serialised cfg)]) (serialised cfg)) = Inl e"
    and "\<not> shouldRetry e" and "ae_config e \<noteq> None"
  shows "\<exists>new. request net conf cfg tr =
            (Inl (enhanceError
                    (e\<lparr>ae_config := Some ((serialised cfg)\<lparr>retryCount := Some (count_of cfg)\<rparr>)\<rparr>)),
             tr @ new) \<and>
            wire new = [Dispatched (serialised cfg)]"
proof -
  let ?s = "serialised cfg"
  obtain n1 where n1: "request_log conf cfg tr = tr @ n1" "wire n1 = []"
    using request_log_extends by blast
  obtain n2 where n2: "log conf (''Response error: '' @ ae_message e) (request_log conf cfg tr @ [Dispatched ?s])
       = (request_log conf cfg tr @ [Dispatched ?s]) @ n2" "wire n2 = []"
    using log_extends by blast
  have "request net conf cfg tr =
            (Inl (enhanceError (e\<lparr>ae_config := Some (?s\<lparr>retryCount := Some (count_of cfg)\<rparr>)\<rparr>)),
             tr @ (n1 @ [Dispatched ?s] @ n2))"
    using request_give_up[where net=net and conf=conf and tr=tr, OF assms(1) assms(3)] assms(2) n1 n2
    by simp
  moreover have "wire (n1 @ [Dispatched ?s] @ n2) = [Dispatched ?s]"
    using n1 n2 by (simp add: wire_def)
  ultimately show ?thesis by blast
qed

lemma executeCommand_request:
  "client this = Some inst \<Longrightarrow>
   executeCommand net this type input tr =
     deliver (config this) ''Command execution failed: ''
       (request net (config this)
          (mk_request inst ''post'' ''/command'' (JObj [(''type'', type), (''input'', input)])) tr)"
  by (simp add: executeCommand_def client_post_def deliver_def)

lemma perform_request:
  assumes "client this = Some inst"
  shows "\<exists>c0 label. retryCount c0 = None \<and>
           perform net this op tr = deliver (config this) label (request net (config this) c0 tr)"
proof -
  have c: "\<exists>c0 label. retryCount c0 = None \<and>
           executeCommand net this type input tr = deliver (config this) label (request net (config this) c0 tr)"
    for type input
  proof (intro exI conjI)
    show "retryCount (mk_request inst ''post'' ''/command'' (JObj [(''type'', type), (''input'', input)])) = None"
      by (simp add: mk_request_def)
    show "executeCommand net this type input tr =
            deliver (config this) ''Command execution failed: ''
              (request net (config this)
                 (mk_request inst ''post'' ''/command'' (JObj [(''type'', type), (''input'', input)])) tr)"
      by (rule executeCommand_request[OF assms])
  qed
  show ?thesis 
  proof (cases op)
    case GetTools
    have "getTools net this tr = deliver (config this) ''Failed to fetch tools: ''
       (request net (config this) (mk_request inst ''get'' ''/tools'' JUndefined) tr)"
      using assms by (simp add: getTools_def client_get_def deliver_def)
    moreover have "retryCount (mk_request inst ''get'' ''/tools'' JUndefined) = None"
      by (simp add: mk_request_def)
    ultimately show ?thesis using GetTools by (metis perform.simps(2))
  next
    case HealthCheck
    have "healthCheck net this tr = deliver (config this) ''Health check failed: ''
       (request net (config this) (mk_request inst ''get'' ''/health'' JUndefined) tr)"
      using assms by (simp add: healthCheck_def client_get_def deliver_def)
    moreover have "retryCount (mk_request inst ''get'' ''/health'' JUndefined) = None"
      by (simp add: mk_request_def)
    ultimately show ?thesis using HealthCheck by (metis perform.simps(8))
  next
    case (ExecuteTool n p)
    have "executeTool net this n p tr = deliver (config this) ''Tool execution failed: ''
       (request net (config this) (mk_request inst ''post'' ''/tools/execute''
            (JObj [(''tool'', n), (''parameters'', default_param p (JObj []))])) tr)"
      using assms by (simp add: executeTool_def client_post_def deliver_def)
    moreover have "retryCount (mk_request inst ''post'' ''/tools/execute''
            (JObj [(''tool'', n), (''parameters'', default_param p (JObj []))])) = None"
      by (simp add: mk_request_def)
    ultimately show ?thesis using ExecuteTool by (metis perform.simps(3))
  qed (use c in \<open>simp_all add: analyzeCode_def extractDataLineage_def sqlMetadataLookup_def runWorkflow_def\<close>)
qed

lemma attempts_wire [simp]: "attempts (wire t) = attempts t"
  by (induction t rule: attempts.induct) (simp_all add: wire_def)

lemma sleeps_wire [simp]: "sleeps (wire t) = sleeps t"
  by (induction t rule: sleeps.induct) (simp_all add: wire_def)

lemma waited_before_wire [simp]: "waited_before n (wire t) = waited_before n t"
  by (induction n t rule: waited_before.induct) (simp_all add: wire_def)


lemma attempts_schedule: "length (attempts (schedule cfg k n)) = n"
  by (induction n arbitrary: k) simp_all




lemma deliver_rejected:
  "\<exists>extra. deliver conf label (Inl e, tr @ new) = (Inl e, tr @ new @ extra) \<and> wire extra = []"
  using log_extends[of conf "label @ message e" "tr @ new"] by (auto simp: deliver_def)


lemma settle_status:
  assumes "always_status net s" "\<not> validateStatus s"
  shows "\<exists>e resp. settle c (net h c) = Inl e \<and> ae_response e = Some resp \<and> status resp = s \<and>
                ae_config e \<noteq> None"
proof -
  from assms(1) have "case net h c of Response resp \<Rightarrow> status resp = s | _ \<Rightarrow> False"
    unfolding always_status_def by blast
  then show ?thesis using assms(2) by (cases "net h c") (simp_all add: settle_def)
qed


lemma demo_client_constructed:
  "NetPadApiClient (Some demo_options) no_env [] = (Inr demo_client, [Created (axios_create demo_config)])"
  by (simp add: NetPadApiClient_def initialize_def resolve_config_def demo_options_def no_env_def
      demo_client_def demo_config_def parseInt_def Let_def)

lemma demo_client_transport: "client demo_client = Some (axios_create demo_config)"
  by (simp add: demo_client_def)

lemma demo_client_retries: "retries (config demo_client) = 2"
  by (simp add: demo_client_def demo_config_def)

lemma resolved_key_empty:
  "apiKey (resolve_config opts env) = [] \<longleftrightarrow>
     opt_apiKey opts \<in> {None, Some []} \<and> NETPAD_API_KEY env \<in> {None, Some []}"
  by (cases "opt_apiKey opts"; cases "NETPAD_API_KEY env") (auto simp: resolve_config_def)

lemma explicit_retries_kept:
  "n \<noteq> 0 \<Longrightarrow> retries (resolve_config (opts\<lparr>opt_retries := Some n\<rparr>) env) = n"
  by (simp add: resolve_config_def)

lemma omitted_retries_default:
  "opt_retries opts = None \<Longrightarrow>
   retries (resolve_config opts env) = num_or (parseInt (NETPAD_RETRIES env)) 3"
  by (simp add: resolve_config_def)




section \<open>Retry, backoff and error normalisation\<close>

text \<open>
  Claim C1. Let the client hold a transport and a retry limit \<open>R \<ge> 0\<close>, and let the remote
  answer every attempt with status 429. Then every operation (\<^verbatim>\<open>executeCommand\<close>,
  \<^verbatim>\<open>getTools\<close>, \<^verbatim>\<open>executeTool\<close>, \<^verbatim>\<open>healthCheck\<close> and the methods delegating to
  \<^verbatim>\<open>executeCommand\<close>) hands exactly \<open>R + 1\<close> requests to the transport, every failed
  attempt is classified retryable by \<^verbatim>\<open>shouldRetry\<close>, and the operation fails with an
  error whose \<^verbatim>\<open>status\<close> is 429.
\<close>

theorem rate_limited_makes_all_attempts:
  assumes cl: "client this = Some inst" and net: "always_status net 429"
    and nonneg: "0 \<le> retries (config this)"
  shows "\<exists>e new. perform net this op tr = (Inl e, tr @ new) \<and>
           int (length (attempts new)) = retries (config this) + 1 \<and>
           err_status e = Some 429 \<and>
           (\<forall>h c. \<exists>ae. settle c (net h c) = Inl ae \<and> shouldRetry ae)"
proof -
  have st: "\<exists>e resp. settle c (net h c) = Inl e \<and> ae_response e = Some resp \<and> status resp = 429 \<and>
                  ae_config e \<noteq> None" for h c
    using settle_status[OF net] by (simp add: validateStatus_def)
  have retry: "\<exists>e. settle c (net h c) = Inl e \<and> shouldRetry e \<and> ae_config e \<noteq> None" for h c
    using st[of c h] by (auto simp: shouldRetry_def)
  obtain c0 label where c0: "retryCount c0 = None"
    "perform net this op tr = deliver (config this) label (request net (config this) c0 tr)"
    using perform_request[OF cl] by blast
  have k0: "count_of c0 = 0" using c0(1) by (simp add: count_of_def)
  obtain new h c e where r:
    "request net (config this) c0 tr =
       (Inl (enhanceError (e\<lparr>ae_config := Some ((serialised c0)\<lparr>retryCount := Some (nat (retries (config this)))\<rparr>)\<rparr>)), tr @ new)"
    "settle c (net h c) = Inl e"
    "wire new = Dispatched (serialised c0) # schedule (serialised c0) 0 (nat (retries (config this)))"
    using request_exhausts[of net "config this" c0 tr, OF retry] k0 by auto
  let ?err = "enhanceError (e\<lparr>ae_config := Some ((serialised c0)\<lparr>retryCount := Some (nat (retries (config this)))\<rparr>)\<rparr>)"
  obtain extra where x: "deliver (config this) label (Inl ?err, tr @ new) = (Inl ?err, tr @ new @ extra)"
    "wire extra = []"
    using deliver_rejected by blast
  have "length (attempts (wire (new @ extra))) = Suc (nat (retries (config this)))"
    using r(3) x(2) by (simp add: attempts_schedule wire_append)
  then have len: "int (length (attempts (new @ extra))) = retries (config this) + 1"
    using nonneg by simp
  from st[of c h] r(2) obtain resp where "ae_response e = Some resp" "status resp = 429" by auto
  then have "err_status ?err = Some 429" by (simp add: enhanceError_def)
  moreover have "perform net this op tr = (Inl ?err, tr @ (new @ extra))"
    using c0(2) r(1) x(1) by simp
  ultimately show ?thesis using len retry by blast
qed

text \<open>The statement at a client with two retries: three attempts, then status 429.\<close>

theorem rate_limited_makes_all_attempts_witness:
  "client demo_client = Some (axios_create demo_config) \<and>
   always_status (status_remote 429) 429 \<and>
   0 \<le> retries (config demo_client) \<and>
   (\<exists>e. fst (perform (status_remote 429) demo_client GetTools []) = Inl e \<and>
        err_status e = Some 429) \<and>
   length (attempts (snd (perform (status_remote 429) demo_client GetTools []))) = 3"
proof -
  have h1: "client demo_client = Some (axios_create demo_config)"
    by (rule demo_client_transport)
  have h2: "always_status (status_remote 429) 429"
    by (simp add: always_status_def status_remote_def)
  have h3: "0 \<le> retries (config demo_client)"
    by (simp add: demo_client_retries)
  from rate_limited_makes_all_attempts[OF h1 h2 h3, of GetTools "[]"]
  obtain e new where "perform (status_remote 429) demo_client GetTools [] = (Inl e, [] @ new)"
    "int (length (attempts new)) = retries (config demo_client) + 1" "err_status e = Some 429"
    by blast
  then show ?thesis using h1 h2 h3 by (simp add: demo_client_retries)
qed




text \<open>
  Claim C3. When the remote answers with a status \<open>s\<close> in \<open>[400, 500)\<close> other than 429, every
  operation makes exactly one attempt, sleeps for no backoff, and fails with an error whose
  \<^verbatim>\<open>status\<close> is \<open>s\<close>.
\<close>

theorem client_error_not_retried:
  assumes cl: "client this = Some inst" and net: "always_status net s"
    and s: "400 \<le> s" "s < 500" "s \<noteq> 429"
  shows "\<exists>e new. perform net this op tr = (Inl e, tr @ new) \<and>
           length (attempts new) = 1 \<and> sleeps new = [] \<and> err_status e = Some s"
proof -
  obtain c0 label where c0: "retryCount c0 = None"
    "perform net this op tr = deliver (config this) label (request net (config this) c0 tr)"
    using perform_request[OF cl] by blast
  let ?s = "serialised c0"
  let ?h = "request_log (config this) c0 tr @ [Dispatched ?s]"
  have "\<not> validateStatus s" using s by (simp add: validateStatus_def)
  from settle_status[OF net this, of ?s ?h]
  obtain e resp where e: "settle ?s (net ?h ?s) = Inl e" "ae_response e = Some resp" "status resp = s"
    "ae_config e \<noteq> None"
    by blast
  have nr: "\<not> shouldRetry e" using e s by (simp add: shouldRetry_def)
  let ?err = "enhanceError (e\<lparr>ae_config := Some (?s\<lparr>retryCount := Some (count_of c0)\<rparr>)\<rparr>)"
  obtain new where r: "request net (config this) c0 tr = (Inl ?err, tr @ new)" "wire new = [Dispatched ?s]"
    using request_rejected_once[where net=net and conf="config this" and tr=tr, OF e(1) nr e(4)] by blast
  obtain extra where x: "deliver (config this) label (Inl ?err, tr @ new) = (Inl ?err, tr @ new @ extra)"
    "wire extra = []"
    using deliver_rejected by blast
  have w: "wire (new @ extra) = [Dispatched ?s]" using r(2) x(2) by (simp add: wire_append)
  have "length (attempts (wire (new @ extra))) = 1" "sleeps (wire (new @ extra)) = []"
    unfolding w by simp_all
  then have "length (attempts (new @ extra)) = 1" "sleeps (new @ extra) = []"
    by simp_all
  moreover have "err_status ?err = Some s" using e by (simp add: enhanceError_def)
  moreover have "perform net this op tr = (Inl ?err, tr @ (new @ extra))"
    using c0(2) r(1) x(1) by simp
  ultimately show ?thesis by blast
qed

text \<open>The statement at status 400.\<close>

theorem client_error_not_retried_witness:
  "client demo_client = Some (axios_create demo_config) \<and>
   always_status (status_remote 400) 400 \<and>
   (400::nat) \<le> 400 \<and> (400::nat) < 500 \<and> (400::nat) \<noteq> 429 \<and>
   (\<exists>e. fst (perform (status_remote 400) demo_client
                (ExecuteCommand (JStr ''code_analysis'') JNull) []) = Inl e \<and>
        err_status e = Some 400) \<and>
   length (attempts (snd (perform (status_remote 400) demo_client
                (ExecuteCommand (JStr ''code_analysis'') JNull) []))) = 1 \<and>
   sleeps (snd (perform (status_remote 400) demo_client
                (ExecuteCommand (JStr ''code_analysis'') JNull) [])) = []"
proof -
  have h1: "client demo_client = Some (axios_create demo_config)"
    by (rule demo_client_transport)
  have h2: "always_status (status_remote 400) 400"
    by (simp add: always_status_def status_remote_def)
  from client_error_not_retried[OF h1 h2, of "ExecuteCommand (JStr ''code_analysis'') JNull" "[]"]
  obtain e new where "perform (status_remote 400) demo_client
                (ExecuteCommand (JStr ''code_analysis'') JNull) [] = (Inl e, [] @ new)"
    "length (attempts new) = 1" "sleeps new = []" "err_status e = Some 400"
    by auto
  then show ?thesis using h1 h2 by simp
qed



section \<open>Construction and reconfiguration\<close>

text \<open>
  Claim C5. Whatever the other fields of the options and of the environment are, when the
  resolved \<^verbatim>\<open>apiKey\<close> is empty the constructor and the factory throw at once: no client
  is returned and the trace is unchanged, so no axios instance was created and no request
  was sent.
\<close>

theorem construction_requires_api_key:
  assumes "apiKey (resolve_config (case options of None \<Rightarrow> no_options | Some o' \<Rightarrow> o') env) = []"
  shows "NetPadApiClient options env tr = (Inl (plain_error api_key_required), tr) \<and>
         createNetPadClient options env tr = (Inl (plain_error api_key_required), tr)"
  using assms by (simp add: createNetPadClient_def NetPadApiClient_def initialize_def Let_def)

text \<open>The statement at options that set every field but carry an empty key.\<close>

theorem construction_requires_api_key_witness:
  "apiKey (resolve_config (case Some keyless_options of None \<Rightarrow> no_options | Some o' \<Rightarrow> o') no_env) = [] \<and>
   NetPadApiClient (Some keyless_options) no_env [] = (Inl (plain_error api_key_required), []) \<and>
   createNetPadClient (Some keyless_options) no_env [] = (Inl (plain_error api_key_required), [])"
proof -
  have h: "apiKey (resolve_config (case Some keyless_options of None \<Rightarrow> no_options | Some o' \<Rightarrow> o') no_env) = []"
    by (simp add: resolve_config_def keyless_options_def no_env_def)
  show ?thesis using h construction_requires_api_key[OF h, of "[]"] by simp
qed

text \<open>
  Claim C6, evaluated at the explicit override \<^verbatim>\<open>retries: 0\<close> with \<^verbatim>\<open>NETPAD_RETRIES\<close>
  unset: \<^verbatim>\<open>options.retries || \<dots> || 3\<close> skips the falsy 0, the resolved limit is 3, and a
  request that always fails with status 500 is attempted four times. (A non-zero override
  is kept, lemma \<open>explicit_retries_kept\<close>.)
\<close>

theorem zero_retries_override_ignored:
  "retries (resolve_config zero_retries no_env) = 3 \<and>
   (\<exists>c. NetPadApiClient (Some zero_retries) no_env [] = (Inr c, [Created (axios_create (config c))]) \<and>
        retries (config c) = 3 \<and>
        length (attempts (snd (perform (status_remote 500) c HealthCheck []))) = 4)"
proof -
  let ?conf = "\<lparr>baseURL = ''https://netpad.io/api/mcp'', apiKey = ''key'', timeout = 30000,
                 retries = 3, enableLogging = False\<rparr>"
  let ?c = "\<lparr>config = ?conf, client = Some (axios_create ?conf)\<rparr>"
  have r: "resolve_config zero_retries no_env = ?conf"
    by (simp add: resolve_config_def zero_retries_def no_env_def parseInt_def)
  have n: "NetPadApiClient (Some zero_retries) no_env [] = (Inr ?c, [Created (axios_create (config ?c))])"
    by (simp add: NetPadApiClient_def initialize_def r Let_def)
  have a: "length (attempts (snd (perform (status_remote 500) ?c HealthCheck []))) = 4"
    by code_simp
  show ?thesis using r n a by auto
qed

text \<open>
  Claim C7 as stated fails: \<^verbatim>\<open>updateConfig({apiKey: ''})\<close> on a constructed client throws,
  and the stored configuration is no longer the one from before the call.
\<close>

theorem updateConfig_not_atomic:
  "apiKey (merge_config (config demo_client) clear_key) = [] \<and>
   fst (updateConfig clear_key demo_client []) = Inl (plain_error api_key_required) \<and>
   config (fst (snd (updateConfig clear_key demo_client []))) \<noteq> config demo_client"
  by (simp add: updateConfig_def initialize_def merge_config_def clear_key_def demo_client_def
      demo_config_def Let_def)

text \<open>
  Claim C7, amended. \<^verbatim>\<open>updateConfig\<close> first stores the merged configuration and then
  re-validates the \<^verbatim>\<open>apiKey\<close>: if the merged configuration has an empty \<^verbatim>\<open>apiKey\<close>
  the call throws, the transport is left exactly as it was before the call and nothing is
  created, while the stored configuration is already the merged one; otherwise the call
  succeeds and the transport is rebuilt from the merged configuration.
\<close>

theorem updateConfig_outcome:
  "(apiKey (merge_config (config this) u) = [] \<longrightarrow>
      updateConfig u this tr =
        (Inl (plain_error api_key_required),
         \<lparr>config = merge_config (config this) u, client = client this\<rparr>, tr)) \<and>
   (apiKey (merge_config (config this) u) \<noteq> [] \<longrightarrow>
      updateConfig u this tr =
        (Inr (),
         \<lparr>config = merge_config (config this) u,
          client = Some (axios_create (merge_config (config this) u))\<rparr>,
         tr @ [Created (axios_create (merge_config (config this) u))]))"
  by (cases this) (simp add: updateConfig_def initialize_def Let_def)

text \<open>Both branches at a constructed client: clearing the key, and shortening the timeout.\<close>

theorem updateConfig_outcome_witness:
  "apiKey (merge_config (config demo_client) clear_key) = [] \<and>
   updateConfig clear_key demo_client [] =
     (Inl (plain_error api_key_required),
      \<lparr>config = demo_config\<lparr>apiKey := []\<rparr>, client = Some (axios_create demo_config)\<rparr>, []) \<and>
   apiKey (merge_config (config demo_client) shorter_timeout) \<noteq> [] \<and>
   updateConfig shorter_timeout demo_client [] =
     (Inr (),
      \<lparr>config = demo_config\<lparr>timeout := 5000\<rparr>,
       client = Some (axios_create (demo_config\<lparr>timeout := 5000\<rparr>))\<rparr>,
      [Created (axios_create (demo_config\<lparr>timeout := 5000\<rparr>))])"
proof -
  have m1: "merge_config (config demo_client) clear_key = demo_config\<lparr>apiKey := []\<rparr>"
    by (simp add: merge_config_def clear_key_def demo_client_def demo_config_def)
  have m2: "merge_config (config demo_client) shorter_timeout = demo_config\<lparr>timeout := 5000\<rparr>"
    by (simp add: merge_config_def shorter_timeout_def demo_client_def demo_config_def)
  have h1: "apiKey (merge_config (config demo_client) clear_key) = []"
    unfolding m1 by simp
  have h2: "apiKey (merge_config (config demo_client) shorter_timeout) \<noteq> []"
    unfolding m2 by (simp add: demo_config_def)
  have c: "client demo_client = Some (axios_create demo_config)"
    by (simp add: demo_client_def)
  show ?thesis
    using h1 h2 updateConfig_outcome[of demo_client clear_key "[]"]
      updateConfig_outcome[of demo_client shorter_timeout "[]"]
    unfolding m1 m2 c by simp
qed

section \<open>Connection probe and convenience methods\<close>

text \<open>
  Claim C8. For every remote and every client state (so for every failure of
  \<^verbatim>\<open>healthCheck\<close>: no response, any HTTP error status, a failure before the request
  was sent, or a missing transport), \<^verbatim>\<open>testConnection\<close> returns normally, with
  \<^verbatim>\<open>{success: true, message}\<close> when \<^verbatim>\<open>healthCheck\<close> succeeded and
  \<^verbatim>\<open>{success: false, message, error}\<close> when it threw.
\<close>

theorem testConnection_never_throws:
  "\<exists>r tr'. testConnection net this tr = (Inr r, tr') \<and>
     (case fst (healthCheck net this tr) of
        Inr v \<Rightarrow>
          r = \<lparr>success = True, result_message = ''Connected to NetPad API successfully'',
               result_error = None\<rparr>
      | Inl e \<Rightarrow>
          r = \<lparr>success = False, result_message = ''Connection failed: '' @ message e,
               result_error = Some e\<rparr>)"
proof (cases "healthCheck net this tr")
  case (Pair res tr1)
  then show ?thesis by (cases res) (simp_all add: testConnection_def)
qed

text \<open>
  Claim C9. \<^verbatim>\<open>analyzeCode(code, language, analysisType)\<close> is
  \<^verbatim>\<open>executeCommand('code_analysis', {code, language, analysisType})\<close>, with
  \<^verbatim>\<open>analysisType\<close> replaced by \<^verbatim>\<open>'summary'\<close> when it is omitted: the same result and the
  same trace (requests, sleeps and console output).
\<close>

theorem analyzeCode_is_executeCommand:
  "analyzeCode net this code language analysisType JUndefined tr =
     executeCommand net this (JStr ''code_analysis'')
       (JObj [(''code'', code), (''language'', language),
              (''analysisType'', if analysisType = JUndefined then JStr ''summary'' else analysisType)])
       tr"
  by (simp add: analyzeCode_def spread_def default_param_def)

section \<open>The default client\<close>



end
